theory Spec2Isabelle
  imports Complex_Main
begin

section \<open>Values, exceptions and the vitals dictionary\<close>

text \<open>
  The diagnosis engine of \<^verbatim>\<open>app_main.py\<close> works on a Python dict of vitals.
  A value of that dict is a number (an int, a bool or a finite float, each standing for
  its exact value, which is how Python compares an int with a float), one of the three
  special floats, or something that is not a number at all (a string, \<^verbatim>\<open>None\<close>).
\<close>

datatype pyval = PNum real | PInf | PNegInf | PNan | PStr string | PNone

datatype exn = KeyError string | TypeError | ValueError | IndexError | LibraryError

text \<open>All of them are subclasses of \<^verbatim>\<open>Exception\<close>, which is what the handlers catch.\<close>

fun is_Exception :: "exn \<Rightarrow> bool" where
  "is_Exception (KeyError k) = True"
| "is_Exception TypeError = True"
| "is_Exception ValueError = True"
| "is_Exception IndexError = True"
| "is_Exception LibraryError = True"

type_synonym vitals = "string \<rightharpoonup> pyval"

text \<open>\<^verbatim>\<open>data[key]\<close> raises \<^verbatim>\<open>KeyError\<close> on an absent key.\<close>

definition getitem :: "vitals \<Rightarrow> string \<Rightarrow> exn + pyval" where
  "getitem data key = (case data key of None \<Rightarrow> Inl (KeyError key) | Some v \<Rightarrow> Inr v)"

text \<open>\<^verbatim>\<open>data.get(key, default)\<close> never raises.\<close>

definition get_default :: "vitals \<Rightarrow> string \<Rightarrow> pyval \<Rightarrow> pyval" where
  "get_default data key d = (case data key of None \<Rightarrow> d | Some v \<Rightarrow> v)"

text \<open>
  The four order comparisons of a value with a numeric literal. A comparison with NaN is
  false; a string or \<^verbatim>\<open>None\<close> against a number raises \<^verbatim>\<open>TypeError\<close>.
\<close>

fun py_gt :: "pyval \<Rightarrow> real \<Rightarrow> exn + bool" where
  "py_gt (PNum x) c = Inr (x > c)"
| "py_gt PInf c = Inr True"
| "py_gt PNegInf c = Inr False"
| "py_gt PNan c = Inr False"
| "py_gt (PStr s) c = Inl TypeError"
| "py_gt PNone c = Inl TypeError"

fun py_lt :: "pyval \<Rightarrow> real \<Rightarrow> exn + bool" where
  "py_lt (PNum x) c = Inr (x < c)"
| "py_lt PInf c = Inr False"
| "py_lt PNegInf c = Inr True"
| "py_lt PNan c = Inr False"
| "py_lt (PStr s) c = Inl TypeError"
| "py_lt PNone c = Inl TypeError"

fun py_ge :: "pyval \<Rightarrow> real \<Rightarrow> exn + bool" where
  "py_ge (PNum x) c = Inr (x \<ge> c)"
| "py_ge PInf c = Inr True"
| "py_ge PNegInf c = Inr False"
| "py_ge PNan c = Inr False"
| "py_ge (PStr s) c = Inl TypeError"
| "py_ge PNone c = Inl TypeError"

fun py_le :: "pyval \<Rightarrow> real \<Rightarrow> exn + bool" where
  "py_le (PNum x) c = Inr (x \<le> c)"
| "py_le PInf c = Inr False"
| "py_le PNegInf c = Inr True"
| "py_le PNan c = Inr False"
| "py_le (PStr s) c = Inl TypeError"
| "py_le PNone c = Inl TypeError"

text \<open>\<^verbatim>\<open>data[key] > c\<close> and \<^verbatim>\<open>data[key] < c\<close>: the lookup may raise, then the comparison.\<close>

definition item_gt :: "vitals \<Rightarrow> string \<Rightarrow> real \<Rightarrow> exn + bool" where
  "item_gt data key c = (case getitem data key of Inl e \<Rightarrow> Inl e | Inr v \<Rightarrow> py_gt v c)"

definition item_lt :: "vitals \<Rightarrow> string \<Rightarrow> real \<Rightarrow> exn + bool" where
  "item_lt data key c = (case getitem data key of Inl e \<Rightarrow> Inl e | Inr v \<Rightarrow> py_lt v c)"

text \<open>\<^verbatim>\<open>a or b\<close>: the right operand is evaluated only when the left one is false.\<close>

definition py_or :: "exn + bool \<Rightarrow> exn + bool \<Rightarrow> exn + bool" where
  "py_or a b = (case a of Inl e \<Rightarrow> Inl e | Inr l \<Rightarrow> if l then Inr True else b)"

section \<open>The rule evaluator\<close>

type_synonym alerts = "string list"

text \<open>
  The body of the \<^verbatim>\<open>try\<close> block of \<^verbatim>\<open>check_custom_rules\<close> is ten statements
  \<^verbatim>\<open>if cond: alerts.append(label)\<close>, run in order. Each is a pair of its condition
  and its label; \<open>run\<close> executes them on the list \<^verbatim>\<open>alerts\<close>. A condition that raises
  ends the block there, and the list keeps what was appended before.
\<close>

type_synonym rule = "(exn + bool) \<times> string"

fun run :: "rule list \<Rightarrow> alerts \<Rightarrow> exn option \<times> alerts" where
  "run [] alerts = (None, alerts)"
| "run ((cond, label) # rest) alerts =
     (case cond of
        Inl e \<Rightarrow> (Some e, alerts)
      | Inr b \<Rightarrow> run rest (if b then alerts @ [label] else alerts))"

definition rule_block :: "vitals \<Rightarrow> rule list" where
  "rule_block data =
    [(item_gt data ''odometer_km'' 300000, ''Maintenance Due / High Mileage Warning''),
     (item_gt data ''engine_temp_c'' 110, ''Engine Overheating''),
     (item_lt data ''battery_voltage_v'' 12, ''Battery Failure''),
     (item_lt data ''oil_pressure_kpa'' 150, ''Low Oil Pressure Warning''),
     (py_or (item_lt data ''brake_pad_wear_mm_front'' 3)
            (py_lt (get_default data ''brake_pad_wear_mm_rear'' (PNum 3)) 3),
      ''Brake Pads Critically Worn''),
     (item_lt data ''suspension_health_pct'' 40, ''Suspension Failure Risk''),
     (item_lt data ''tire_pressure_psi_fl'' 20, ''Low Tire Pressure''),
     (item_lt data ''coolant_level_pct'' 30, ''Coolant Critically Low''),
     (item_lt data ''brake_fluid_level_pct'' 20, ''Brake Fluid Critically Low''),
     (item_gt data ''transmission_fluid_temp_c'' 110, ''Transmission Overheating'')]"

text \<open>
  \<^verbatim>\<open>except Exception: pass\<close> and then \<^verbatim>\<open>return alerts\<close>: a caught exception is dropped
  and the list is returned as it stands; anything else would propagate.
\<close>

definition check_custom_rules :: "vitals \<Rightarrow> exn + alerts" where
  "check_custom_rules data =
     (case run (rule_block data) [] of
        (None, alerts) \<Rightarrow> Inr alerts
      | (Some e, alerts) \<Rightarrow> if is_Exception e then Inr alerts else Inl e)"

text \<open>The ten labels the evaluator can emit.\<close>

definition rule_labels :: "string list" where
  "rule_labels =
    [''Maintenance Due / High Mileage Warning'', ''Engine Overheating'', ''Battery Failure'',
     ''Low Oil Pressure Warning'', ''Brake Pads Critically Worn'', ''Suspension Failure Risk'',
     ''Low Tire Pressure'', ''Coolant Critically Low'', ''Brake Fluid Critically Low'',
     ''Transmission Overheating'']"

text \<open>
  What a run of the block leaves in the list, read off the rules: the labels of the rules
  whose condition is true, among those that come before the first rule whose condition
  raises.
\<close>

definition fired :: "rule list \<Rightarrow> alerts" where
  "fired rs =
     map snd (filter (\<lambda>r. fst r = Inr True) (takeWhile (\<lambda>r. \<not> isl (fst r)) rs))"

text \<open>
  The safe band of each monitored vital: the key is present and the comparison, as Python
  evaluates it, is true.
\<close>

definition at_most :: "vitals \<Rightarrow> string \<Rightarrow> real \<Rightarrow> bool" where
  "at_most data key c = (case data key of None \<Rightarrow> False | Some v \<Rightarrow> py_le v c = Inr True)"

definition at_least :: "vitals \<Rightarrow> string \<Rightarrow> real \<Rightarrow> bool" where
  "at_least data key c = (case data key of None \<Rightarrow> False | Some v \<Rightarrow> py_ge v c = Inr True)"

definition within_safe_band :: "vitals \<Rightarrow> bool" where
  "within_safe_band data \<longleftrightarrow>
     at_most data ''odometer_km'' 300000 \<and>
     at_most data ''engine_temp_c'' 110 \<and>
     at_least data ''battery_voltage_v'' 12 \<and>
     at_least data ''oil_pressure_kpa'' 150 \<and>
     at_least data ''brake_pad_wear_mm_front'' 3 \<and>
     at_least data ''brake_pad_wear_mm_rear'' 3 \<and>
     at_least data ''suspension_health_pct'' 40 \<and>
     at_least data ''tire_pressure_psi_fl'' 20 \<and>
     at_least data ''coolant_level_pct'' 30 \<and>
     at_least data ''brake_fluid_level_pct'' 20 \<and>
     at_most data ''transmission_fluid_temp_c'' 110"

section \<open>The classifier adapter\<close>

text \<open>
  \<^verbatim>\<open>predict_failure\<close> reads four globals that \<^verbatim>\<open>load_model_assets\<close> unpickles at
  start-up, or that are all \<^verbatim>\<open>None\<close> when a file is missing. The pickled objects are
  not part of the repository, so their methods are fields of the record: each may raise.
  \<open>'x\<close> is the scaled feature array, \<open>'c\<close> the array of encoded predictions.
\<close>

record ('x, 'c) classifier =
  predict :: "'x \<Rightarrow> exn + 'c"
  predict_proba :: "'x \<Rightarrow> exn + real list"

record ('x, 'c) assets =
  model :: "('x, 'c) classifier option"
  scaler :: "(pyval list \<Rightarrow> exn + 'x) option"
  encoder :: "('c \<Rightarrow> exn + string list) option"
  training_columns :: "string list option"

text \<open>
  The arithmetic of pandas and NumPy is a parameter as well: the two column operations of
  the feature engineering (which raise on cells that are not numbers) and the rounding of
  an exact product to the nearest float.
\<close>

record numerics =
  col_add :: "pyval \<Rightarrow> pyval \<Rightarrow> exn + pyval"
  col_div :: "pyval \<Rightarrow> pyval \<Rightarrow> exn + pyval"
  fround :: "real \<Rightarrow> real"

definition bind_exn :: "exn + 'a \<Rightarrow> ('a \<Rightarrow> exn + 'b) \<Rightarrow> exn + 'b" where
  "bind_exn r f = (case r of Inl e \<Rightarrow> Inl e | Inr x \<Rightarrow> f x)"

text \<open>
  Truth values inside \<^verbatim>\<open>all([model, scaler, encoder, training_columns])\<close>:
  \<^verbatim>\<open>None\<close> is false and an unpickled estimator is true; a list is true when it is
  not empty.
\<close>

definition truthy :: "'a option \<Rightarrow> bool" where
  "truthy obj = (case obj of None \<Rightarrow> False | Some x \<Rightarrow> True)"

definition truthy_list :: "'a list option \<Rightarrow> bool" where
  "truthy_list obj = (case obj of None \<Rightarrow> False | Some xs \<Rightarrow> xs \<noteq> [])"

definition assets_loaded :: "('x, 'c) assets \<Rightarrow> bool" where
  "assets_loaded A \<longleftrightarrow>
     truthy (model A) \<and> truthy (scaler A) \<and> truthy (encoder A) \<and> truthy_list (training_columns A)"

text \<open>The literal \<^verbatim>\<open>1e-6\<close>: the float nearest to it, exactly.\<close>

definition eps :: real where
  "eps = 4722366482869645 / 4722366482869645213696"

text \<open>
  The one-row frame \<^verbatim>\<open>pd.DataFrame([input_data])\<close> has a column for each key of the
  dict, so it is the dict again. Each engineered column is computed inside its own
  \<^verbatim>\<open>try\<close> and set to \<^verbatim>\<open>0.0\<close> when anything raises.
\<close>

definition temp_pressure_ratio :: "numerics \<Rightarrow> vitals \<Rightarrow> pyval" where
  "temp_pressure_ratio np input_df =
     (case bind_exn (getitem input_df ''engine_temp_c'') (\<lambda>temp.
           bind_exn (getitem input_df ''oil_pressure_kpa'') (\<lambda>oil.
           bind_exn (col_add np oil (PNum eps)) (\<lambda>denom.
           col_div np temp denom))) of
        Inl e \<Rightarrow> PNum 0
      | Inr v \<Rightarrow> v)"

definition total_brake_wear :: "numerics \<Rightarrow> vitals \<Rightarrow> pyval" where
  "total_brake_wear np input_df =
     (case bind_exn (getitem input_df ''brake_pad_wear_mm_front'') (\<lambda>front.
           bind_exn (getitem input_df ''brake_pad_wear_mm_rear'') (\<lambda>rear.
           col_add np front rear)) of
        Inl e \<Rightarrow> PNum 0
      | Inr v \<Rightarrow> v)"

text \<open>\<^verbatim>\<open>input_df.reindex(columns=training_columns, fill_value=0)\<close>\<close>

definition reindex :: "vitals \<Rightarrow> string list \<Rightarrow> pyval list" where
  "reindex input_df columns = map (\<lambda>c. get_default input_df c (PNum 0)) columns"

text \<open>\<^verbatim>\<open>xs[0]\<close> and \<^verbatim>\<open>prediction_proba.max()\<close> raise on an empty array.\<close>

definition first_item :: "'a list \<Rightarrow> exn + 'a" where
  "first_item xs = (case xs of [] \<Rightarrow> Inl IndexError | x # rest \<Rightarrow> Inr x)"

definition array_max :: "real list \<Rightarrow> exn + real" where
  "array_max xs = (case xs of [] \<Rightarrow> Inl ValueError | x # rest \<Rightarrow> Inr (fold max rest x))"

type_synonym prediction = "string \<times> real \<times> real list option"

text \<open>The body of \<^verbatim>\<open>predict_failure\<close> below its guard, on the four loaded objects.\<close>

definition predict_loaded ::
  "numerics \<Rightarrow> ('x, 'c) classifier \<Rightarrow> (pyval list \<Rightarrow> exn + 'x) \<Rightarrow> ('c \<Rightarrow> exn + string list) \<Rightarrow>
     string list \<Rightarrow> vitals \<Rightarrow> exn + prediction" where
  "predict_loaded np m transform inverse_transform columns input_data =
     (let input_df = input_data;
          input_df = input_df(''temp_pressure_ratio'' \<mapsto> temp_pressure_ratio np input_df);
          input_df = input_df(''total_brake_wear'' \<mapsto> total_brake_wear np input_df);
          row = reindex input_df columns
      in bind_exn (transform row) (\<lambda>input_scaled.
         bind_exn (predict m input_scaled) (\<lambda>prediction_encoded.
         bind_exn (predict_proba m input_scaled) (\<lambda>prediction_proba.
         bind_exn (inverse_transform prediction_encoded) (\<lambda>decoded.
         bind_exn (first_item decoded) (\<lambda>predicted_failure.
         bind_exn (array_max prediction_proba) (\<lambda>highest.
         Inr (predicted_failure, fround np (highest * 100), Some prediction_proba))))))))"

text \<open>
  The guard returns the sentinel before any of the globals is used; past it, each of them
  is an object.
\<close>

definition predict_failure ::
  "numerics \<Rightarrow> ('x, 'c) assets \<Rightarrow> vitals \<Rightarrow> exn + prediction" where
  "predict_failure np A input_data =
     (if \<not> assets_loaded A then Inr (''Model not loaded'', 0, None)
      else predict_loaded np (the (model A)) (the (scaler A)) (the (encoder A))
             (the (training_columns A)) input_data)"

section \<open>Fusing the rule alerts with the prediction\<close>

text \<open>
  The Detailed Analysis page: \<^verbatim>\<open>all_alerts = set(rule_alerts)\<close>, and the predicted
  label is added when it is neither \<^verbatim>\<open>"None"\<close> nor \<^verbatim>\<open>"Normal"\<close> and the confidence is
  at least 50.
\<close>

definition all_alerts :: "alerts \<Rightarrow> string \<Rightarrow> real \<Rightarrow> string set" where
  "all_alerts rule_alerts predicted_failure confidence =
     (if predicted_failure \<notin> set [''None'', ''Normal''] \<and> confidence \<ge> 50
      then insert predicted_failure (set rule_alerts)
      else set rule_alerts)"

text \<open>
  The metric shown under the alerts: its caption depends on whether there is an alert,
  its value is \<^verbatim>\<open>confidence\<close> in both branches (printed with one decimal).
\<close>

definition confidence_metric :: "string set \<Rightarrow> real \<Rightarrow> string \<times> real" where
  "confidence_metric alert_set confidence =
     (if alert_set \<noteq> {} then (''Prediction Confidence'', confidence)
      else (''Confidence in Normal Status'', confidence))"

text \<open>
  The fusion step as a function of the rule alerts and the triple that
  \<^verbatim>\<open>predict_failure\<close> returned: the alert set, and \<^verbatim>\<open>confidence\<close> as the page
  goes on to use it. The step assigns to \<^verbatim>\<open>all_alerts\<close> only.
\<close>

definition fuse :: "alerts \<Rightarrow> prediction \<Rightarrow> string set \<times> real" where
  "fuse rule_alerts p =
     (case p of (predicted_failure, confidence, prediction_proba) \<Rightarrow>
        (all_alerts rule_alerts predicted_failure confidence, confidence))"

text \<open>One diagnosis: the rules, the prediction, the fusion.\<close>

definition diagnosis ::
  "numerics \<Rightarrow> ('x, 'c) assets \<Rightarrow> vitals \<Rightarrow> exn + (string set \<times> real)" where
  "diagnosis np A data =
     bind_exn (check_custom_rules data) (\<lambda>rule_alerts.
     bind_exn (predict_failure np A data) (\<lambda>p.
     Inr (fuse rule_alerts p)))"

section \<open>Concrete inputs\<close>

text \<open>The float that the literal \<^verbatim>\<open>13.8\<close> denotes.\<close>

definition float_13_8 :: real where
  "float_13_8 = 3884354678607053 / 281474976710656"

text \<open>Readings with no odometer value and an engine at 115 degrees.\<close>

definition no_odometer_vitals :: vitals where
  "no_odometer_vitals = map_of
    [(''engine_temp_c'', PNum 115), (''battery_voltage_v'', PNum float_13_8),
     (''oil_pressure_kpa'', PNum 300), (''brake_pad_wear_mm_front'', PNum 8),
     (''suspension_health_pct'', PNum 80), (''tire_pressure_psi_fl'', PNum 32),
     (''coolant_level_pct'', PNum 90), (''brake_fluid_level_pct'', PNum 90),
     (''transmission_fluid_temp_c'', PNum 90)]"

text \<open>The readings of the end-to-end scenario: only the mileage is out of its band.\<close>

definition high_mileage_vitals :: vitals where
  "high_mileage_vitals = map_of
    [(''odometer_km'', PNum 320000), (''engine_temp_c'', PNum 95),
     (''battery_voltage_v'', PNum float_13_8), (''oil_pressure_kpa'', PNum 300),
     (''brake_pad_wear_mm_front'', PNum 8), (''brake_pad_wear_mm_rear'', PNum 8),
     (''suspension_health_pct'', PNum 80), (''tire_pressure_psi_fl'', PNum 32),
     (''coolant_level_pct'', PNum 90), (''brake_fluid_level_pct'', PNum 90),
     (''transmission_fluid_temp_c'', PNum 90)]"

text \<open>The same with the odometer exactly at its limit.\<close>

definition healthy_vitals :: vitals where
  "healthy_vitals = high_mileage_vitals(''odometer_km'' \<mapsto> PNum 300000)"

text \<open>Readings with no rear brake pad value.\<close>

definition no_rear_vitals :: vitals where
  "no_rear_vitals = map_of
    [(''odometer_km'', PNum 1000), (''engine_temp_c'', PNum 115),
     (''battery_voltage_v'', PNum float_13_8), (''oil_pressure_kpa'', PNum 300),
     (''brake_pad_wear_mm_front'', PNum 8),
     (''suspension_health_pct'', PNum 80), (''tire_pressure_psi_fl'', PNum 32),
     (''coolant_level_pct'', PNum 90), (''brake_fluid_level_pct'', PNum 90),
     (''transmission_fluid_temp_c'', PNum 90)]"

text \<open>What \<^verbatim>\<open>load_model_assets\<close> returns when a file is missing.\<close>

definition unavailable_assets :: "('x, 'c) assets" where
  "unavailable_assets = \<lparr>model = None, scaler = None, encoder = None, training_columns = None\<rparr>"

text \<open>
  A loaded bundle over three classes: a scaler that leaves the row as it is, a classifier
  that answers class 1 with probabilities 0.25, 0.625 and 0.125 (all three are floats),
  and the encoder of the class names.
\<close>

definition sample_classes :: "string list" where
  "sample_classes = [''Battery Failure'', ''Engine Overheating'', ''Normal'']"

definition sample_assets :: "(pyval list, nat) assets" where
  "sample_assets =
     \<lparr>model = Some \<lparr>predict = (\<lambda>x. Inr 1), predict_proba = (\<lambda>x. Inr [1/4, 5/8, 1/8])\<rparr>,
      scaler = Some (\<lambda>row. Inr row),
      encoder = Some (\<lambda>c. if c < length sample_classes then Inr [sample_classes ! c]
                            else Inl ValueError),
      training_columns = Some [''engine_temp_c'', ''oil_pressure_kpa'', ''temp_pressure_ratio'',
                               ''total_brake_wear'']\<rparr>"

text \<open>
  Column arithmetic on numbers, raising on anything else, and a rounding that keeps every
  product as it is (as it does keep 0.625 * 100 = 62.5).
\<close>

fun num_add :: "pyval \<Rightarrow> pyval \<Rightarrow> exn + pyval" where
  "num_add (PNum x) (PNum y) = Inr (PNum (x + y))"
| "num_add a b = Inl TypeError"

fun num_div :: "pyval \<Rightarrow> pyval \<Rightarrow> exn + pyval" where
  "num_div (PNum x) (PNum y) = (if y = 0 then Inr PNan else Inr (PNum (x / y)))"
| "num_div a b = Inl TypeError"

definition sample_numerics :: numerics where
  "sample_numerics = \<lparr>col_add = num_add, col_div = num_div, fround = (\<lambda>x. x)\<rparr>"

section \<open>What the rule evaluator returns\<close>

lemma fired_Nil: "fired [] = []"
  by (simp add: fired_def)

lemma fired_Inl: "fired ((Inl e, l) # rs) = []"
  by (simp add: fired_def)

lemma fired_True: "fired ((Inr True, l) # rs) = l # fired rs"
  by (simp add: fired_def)

lemma fired_False: "fired ((Inr False, l) # rs) = fired rs"
  by (simp add: fired_def)

lemma snd_run: "snd (run rs a) = a @ fired rs"
proof (induction rs arbitrary: a)
  case Nil
  show ?case by (simp add: fired_Nil)
next
  case (Cons r rs)
  obtain c l where r: "r = (c, l)" by (cases r)
  show ?case
  proof (cases c)
    case (Inl e)
    then show ?thesis by (simp add: r fired_Inl)
  next
    case (Inr b)
    then show ?thesis by (cases b) (simp_all add: r Cons.IH fired_True fired_False)
  qed
qed

lemma is_Exception_any: "is_Exception e"
  by (cases e) simp_all

lemma check_custom_rules_fired: "check_custom_rules data = Inr (fired (rule_block data))"
proof -
  obtain e a where ra: "run (rule_block data) [] = (e, a)"
    by (cases "run (rule_block data) []")
  have "a = fired (rule_block data)"
    using snd_run [of "rule_block data" "[]"] ra by simp
  then show ?thesis
    by (cases e) (simp_all add: check_custom_rules_def ra is_Exception_any)
qed

lemma fired_true_rule: "l \<in> set (fired rs) \<Longrightarrow> (Inr True, l) \<in> set rs"
proof (induction rs)
  case Nil
  then show ?case by (simp add: fired_Nil)
next
  case (Cons r rs)
  obtain c k where r: "r = (c, k)" by (cases r)
  show ?case
  proof (cases c)
    case (Inl e)
    with Cons.prems show ?thesis by (simp add: r fired_Inl)
  next
    case (Inr b)
    with Cons show ?thesis by (cases b) (auto simp: r fired_True fired_False)
  qed
qed

lemma fired_label: "l \<in> set (fired rs) \<Longrightarrow> l \<in> snd ` set rs"
  using fired_true_rule [of l rs] by force

lemma fired_distinct: "distinct (map snd rs) \<Longrightarrow> distinct (fired rs)"
proof (induction rs)
  case Nil
  show ?case by (simp add: fired_Nil)
next
  case (Cons r rs)
  obtain c k where r: "r = (c, k)" by (cases r)
  show ?case
  proof (cases c)
    case (Inl e)
    then show ?thesis by (simp add: r fired_Inl)
  next
    case (Inr b)
    show ?thesis
    proof (cases b)
      case True
      have "k \<notin> set (fired rs)"
        using Cons.prems fired_label [of k rs] by (auto simp: r)
      with Cons Inr True show ?thesis by (simp add: r fired_True)
    next
      case False
      with Cons Inr show ?thesis by (simp add: r fired_False)
    qed
  qed
qed

lemma labels_rule_block: "map snd (rule_block data) = rule_labels"
  by (simp add: rule_block_def rule_labels_def)

lemma distinct_rule_labels: "distinct rule_labels"
  by (simp add: rule_labels_def)

text \<open>
  Claim C10. On every dict, whatever its keys and values, \<^verbatim>\<open>check_custom_rules\<close>
  returns a list and raises nothing; every element of the list is one of the ten labels,
  and no label occurs twice.
\<close>

theorem check_custom_rules_total_labels_distinct:
  "\<exists>alerts. check_custom_rules data = Inr alerts \<and> set alerts \<subseteq> set rule_labels \<and> distinct alerts"
proof -
  let ?alerts = "fired (rule_block data)"
  have sub: "set ?alerts \<subseteq> set rule_labels"
  proof
    fix l assume "l \<in> set ?alerts"
    then have "l \<in> snd ` set (rule_block data)" by (rule fired_label)
    then have "l \<in> set (map snd (rule_block data))" by simp
    then show "l \<in> set rule_labels" by (simp only: labels_rule_block)
  qed
  have "distinct (map snd (rule_block data))"
    by (simp only: labels_rule_block distinct_rule_labels)
  then have "distinct ?alerts" by (rule fired_distinct)
  with sub check_custom_rules_fired [of data] show ?thesis by blast
qed

lemma at_most_item_gt: "at_most data key c \<Longrightarrow> item_gt data key c = Inr False"
proof -
  assume a: "at_most data key c"
  then obtain v where v: "data key = Some v" and le: "py_le v c = Inr True"
    by (auto simp: at_most_def split: option.splits)
  from le have "py_gt v c = Inr False" by (cases v) auto
  with v show ?thesis by (simp add: item_gt_def getitem_def)
qed

lemma at_least_item_lt: "at_least data key c \<Longrightarrow> item_lt data key c = Inr False"
proof -
  assume a: "at_least data key c"
  then obtain v where v: "data key = Some v" and ge: "py_ge v c = Inr True"
    by (auto simp: at_least_def split: option.splits)
  from ge have "py_lt v c = Inr False" by (cases v) auto
  with v show ?thesis by (simp add: item_lt_def getitem_def)
qed

lemma at_least_get_default: "at_least data key c \<Longrightarrow> py_lt (get_default data key d) c = Inr False"
proof -
  assume a: "at_least data key c"
  then obtain v where v: "data key = Some v" and ge: "py_ge v c = Inr True"
    by (auto simp: at_least_def split: option.splits)
  from ge have "py_lt v c = Inr False" by (cases v) auto
  with v show ?thesis by (simp add: get_default_def)
qed

text \<open>
  Claim C5. When every monitored key is present and its value is inside its safe band
  (odometer at most 300000, engine temperature at most 110, battery at least 12.0, oil
  pressure at least 150, both brake pads at least 3, suspension at least 40, tyre pressure
  at least 20, coolant at least 30, brake fluid at least 20, transmission temperature at
  most 110), \<^verbatim>\<open>check_custom_rules\<close> returns the empty list.
\<close>

theorem safe_band_no_alert:
  assumes "within_safe_band data"
  shows "check_custom_rules data = Inr []"
proof -
  have "rule_block data = map (Pair (Inr False)) rule_labels"
    using assms unfolding within_safe_band_def
    by (simp add: rule_block_def rule_labels_def at_most_item_gt at_least_item_lt
        at_least_get_default py_or_def)
  then have "fired (rule_block data) = []"
    by (simp add: rule_labels_def fired_False fired_Nil)
  then show ?thesis by (simp add: check_custom_rules_fired)
qed

lemma healthy_within: "within_safe_band healthy_vitals"
  by (simp add: within_safe_band_def healthy_vitals_def high_mileage_vitals_def
      at_most_def at_least_def float_13_8_def)

theorem safe_band_no_alert_witness:
  "within_safe_band healthy_vitals \<and> check_custom_rules healthy_vitals = Inr []"
  using safe_band_no_alert [OF healthy_within] healthy_within by simp

text \<open>
  Claim C6. When \<^verbatim>\<open>brake_pad_wear_mm_rear\<close> is absent and
  \<^verbatim>\<open>brake_pad_wear_mm_front\<close> is 8, \<^verbatim>\<open>check_custom_rules\<close> does not emit
  "Brake Pads Critically Worn": the rear value defaults to 3, and 3 < 3 is false.
\<close>

theorem rear_absent_front_8_no_brake_alert:
  assumes "data ''brake_pad_wear_mm_rear'' = None"
    and "data ''brake_pad_wear_mm_front'' = Some (PNum 8)"
  shows "\<exists>alerts. check_custom_rules data = Inr alerts \<and>
           ''Brake Pads Critically Worn'' \<notin> set alerts"
proof -
  have cond: "py_or (item_lt data ''brake_pad_wear_mm_front'' 3)
            (py_lt (get_default data ''brake_pad_wear_mm_rear'' (PNum 3)) 3) = Inr False"
    using assms by (simp add: py_or_def item_lt_def getitem_def get_default_def)
  have "(Inr True, ''Brake Pads Critically Worn'') \<notin> set (rule_block data)"
    by (simp add: rule_block_def cond)
  then have "''Brake Pads Critically Worn'' \<notin> set (fired (rule_block data))"
    using fired_true_rule by blast
  then show ?thesis by (simp add: check_custom_rules_fired)
qed

theorem rear_absent_front_8_no_brake_alert_witness:
  "no_rear_vitals ''brake_pad_wear_mm_rear'' = None \<and>
   no_rear_vitals ''brake_pad_wear_mm_front'' = Some (PNum 8) \<and>
   (\<exists>alerts. check_custom_rules no_rear_vitals = Inr alerts \<and>
      ''Brake Pads Critically Worn'' \<notin> set alerts)"
proof -
  have r: "no_rear_vitals ''brake_pad_wear_mm_rear'' = None"
    by (simp add: no_rear_vitals_def)
  have f: "no_rear_vitals ''brake_pad_wear_mm_front'' = Some (PNum 8)"
    by (simp add: no_rear_vitals_def)
  from rear_absent_front_8_no_brake_alert [OF r f] r f show ?thesis by simp
qed

text \<open>On those readings the brake rule is reached, and the engine rule before it fires.\<close>

lemma no_rear_value: "check_custom_rules no_rear_vitals = Inr [''Engine Overheating'']"
  by (simp add: check_custom_rules_def rule_block_def no_rear_vitals_def item_gt_def item_lt_def
      getitem_def get_default_def py_or_def float_13_8_def)

text \<open>
  Claim C1. When a required key is absent, only the check that needs it is skipped, every
  other check still contributes its alert, and no exception reaches the caller. The code
  does not do the second part: with \<^verbatim>\<open>odometer_km\<close> absent the first check raises,
  the handler ends the whole block, and the engine check, whose own input is present and
  above 110, never runs.
\<close>

theorem missing_odometer_suppresses_engine_alert:
  "check_custom_rules no_odometer_vitals = Inr [] \<and>
   item_gt no_odometer_vitals ''engine_temp_c'' 110 = Inr True"
  by (simp add: check_custom_rules_def rule_block_def no_odometer_vitals_def item_gt_def
      getitem_def)

section \<open>What the classifier adapter returns\<close>

lemma array_max_Inr: "array_max xs = Inr t \<Longrightarrow> xs \<noteq> [] \<and> t = Max (set xs)"
proof (cases xs)
  case Nil
  assume "array_max xs = Inr t"
  with Nil show ?thesis by (simp add: array_max_def)
next
  case (Cons a list)
  assume "array_max xs = Inr t"
  with Cons have "t = fold max list a" by (simp add: array_max_def)
  also have "\<dots> = Max (set (a # list))" by (rule Max.set_eq_fold [symmetric])
  finally show ?thesis using Cons by simp
qed

lemma predict_loaded_Inr:
  assumes "predict_loaded np m transform inverse_transform columns input_data = Inr (label, confidence, proba)"
  shows "\<exists>x P. predict_proba m x = Inr P \<and> P \<noteq> [] \<and> proba = Some P \<and>
           confidence = fround np (Max (set P) * 100)"
  using assms
  by (auto simp: predict_loaded_def Let_def bind_exn_def split: sum.splits dest!: array_max_Inr)

lemma not_loaded_iff:
  "\<not> assets_loaded A \<longleftrightarrow>
     model A = None \<or> scaler A = None \<or> encoder A = None \<or> training_columns A = None \<or>
     training_columns A = Some []"
  by (auto simp: assets_loaded_def truthy_def truthy_list_def split: option.splits)

text \<open>
  Claim C3. Whatever the vitals, when one of the four assets (model, scaler, encoder,
  training columns) is \<^verbatim>\<open>None\<close>, \<^verbatim>\<open>predict_failure\<close> returns the sentinel
  \<^verbatim>\<open>("Model not loaded", 0, None)\<close>, with confidence zero and no distribution, and
  raises nothing.
\<close>

theorem predict_failure_unavailable:
  assumes "model A = None \<or> scaler A = None \<or> encoder A = None \<or> training_columns A = None"
  shows "predict_failure np A input_data = Inr (''Model not loaded'', 0, None)"
proof -
  from assms have "\<not> assets_loaded A" by (simp only: not_loaded_iff) blast
  then show ?thesis by (simp add: predict_failure_def)
qed

theorem predict_failure_unavailable_witness:
  "model (unavailable_assets :: (pyval list, nat) assets) = None \<and>
   predict_failure sample_numerics (unavailable_assets :: (pyval list, nat) assets)
     high_mileage_vitals = Inr (''Model not loaded'', 0, None)"
proof -
  have h: "model (unavailable_assets :: (pyval list, nat) assets) = None"
    by (simp add: unavailable_assets_def)
  then have "model (unavailable_assets :: (pyval list, nat) assets) = None \<or>
      scaler (unavailable_assets :: (pyval list, nat) assets) = None \<or>
      encoder (unavailable_assets :: (pyval list, nat) assets) = None \<or>
      training_columns (unavailable_assets :: (pyval list, nat) assets) = None" by simp
  from predict_failure_unavailable [OF this] h show ?thesis by simp
qed

text \<open>
  Claim C8. The confidence that \<^verbatim>\<open>predict_failure\<close> returns lies in [0, 100]: it is 0
  when the assets are unavailable, and otherwise it is the largest class probability times
  100, which is in [0, 100] when the probabilities of the classifier lie in [0, 1]. The
  product is a float product: rounding to the nearest float is monotone and leaves 0 and
  100 as they are, which is all the bound needs.
\<close>

theorem predict_failure_confidence_range:
  assumes ret: "predict_failure np A input_data = Inr (label, confidence, proba)"
    and mono: "\<forall>x y. x \<le> y \<longrightarrow> fround np x \<le> fround np y"
    and r0: "fround np 0 = 0"
    and r100: "fround np 100 = 100"
    and probs: "\<forall>m x P. model A = Some m \<longrightarrow> predict_proba m x = Inr P \<longrightarrow>
                  (\<forall>p \<in> set P. 0 \<le> p \<and> p \<le> 1)"
  shows "0 \<le> confidence \<and> confidence \<le> 100 \<and>
         (\<not> assets_loaded A \<longrightarrow> confidence = 0) \<and>
         (assets_loaded A \<longrightarrow>
            (\<exists>P. proba = Some P \<and> P \<noteq> [] \<and> confidence = fround np (Max (set P) * 100)))"
proof (cases "assets_loaded A")
  case False
  with ret have "confidence = 0" by (simp add: predict_failure_def)
  with False show ?thesis by simp
next
  case True
  then obtain m where m: "model A = Some m"
    by (auto simp: assets_loaded_def truthy_def split: option.splits)
  from True ret m have
    "predict_loaded np m (the (scaler A)) (the (encoder A)) (the (training_columns A)) input_data
       = Inr (label, confidence, proba)"
    by (simp add: predict_failure_def)
  from predict_loaded_Inr [OF this] obtain x P where
    P: "predict_proba m x = Inr P" "P \<noteq> []" "proba = Some P"
    and c: "confidence = fround np (Max (set P) * 100)" by blast
  from probs m P(1) have bounds: "\<forall>p \<in> set P. 0 \<le> p \<and> p \<le> 1" by blast
  have "Max (set P) \<in> set P" using P(2) by simp
  with bounds have "0 \<le> Max (set P)" "Max (set P) \<le> 1" by blast+
  then have "0 \<le> Max (set P) * 100" "Max (set P) * 100 \<le> 100" by simp_all
  with mono have "fround np 0 \<le> fround np (Max (set P) * 100)"
    "fround np (Max (set P) * 100) \<le> fround np 100" by blast+
  with r0 r100 c have "0 \<le> confidence" "confidence \<le> 100" by simp_all
  with True P c show ?thesis by simp
qed

lemma sample_loaded: "assets_loaded sample_assets"
  by (simp add: assets_loaded_def sample_assets_def truthy_def truthy_list_def)

lemma sample_prediction:
  "predict_failure sample_numerics sample_assets high_mileage_vitals =
     Inr (''Engine Overheating'', 125 / 2, Some [1/4, 5/8, 1/8])"
  by (simp add: predict_failure_def sample_loaded)
     (simp add: sample_assets_def predict_loaded_def Let_def bind_exn_def first_item_def
        array_max_def sample_numerics_def sample_classes_def)

theorem predict_failure_confidence_range_witness:
  "predict_failure sample_numerics sample_assets high_mileage_vitals =
     Inr (''Engine Overheating'', 125 / 2, Some [1/4, 5/8, 1/8]) \<and>
   (0::real) \<le> 125 / 2 \<and> (125 / 2 :: real) \<le> 100 \<and> assets_loaded sample_assets \<and>
   (125 / 2 :: real) = fround sample_numerics (Max (set [1/4, 5/8, 1/8]) * 100)"
proof -
  have mono: "\<forall>x y. x \<le> y \<longrightarrow> fround sample_numerics x \<le> fround sample_numerics y"
    by (simp add: sample_numerics_def)
  have r0: "fround sample_numerics 0 = 0" by (simp add: sample_numerics_def)
  have r100: "fround sample_numerics 100 = 100" by (simp add: sample_numerics_def)
  have probs: "\<forall>m x P. model sample_assets = Some m \<longrightarrow> predict_proba m x = Inr P \<longrightarrow>
                  (\<forall>p \<in> set P. 0 \<le> p \<and> p \<le> 1)"
    by (auto simp: sample_assets_def)
  from predict_failure_confidence_range [OF sample_prediction mono r0 r100 probs]
    sample_prediction sample_loaded
  show ?thesis by simp
qed

section \<open>The fused verdict\<close>

text \<open>
  Claim C2. The fused alert set is the rule-alert set, with the predicted label added
  exactly when the label is neither "None" nor "Normal" and the confidence is at least
  50. The threshold is inclusive: at exactly 50 the label is added. Adding is a set union,
  so a label that a rule has already raised is not there twice.
\<close>

theorem all_alerts_policy:
  "all_alerts rule_alerts label confidence =
     (if label \<noteq> ''None'' \<and> label \<noteq> ''Normal'' \<and> confidence \<ge> 50
      then set rule_alerts \<union> {label} else set rule_alerts) \<and>
   (label \<noteq> ''None'' \<and> label \<noteq> ''Normal'' \<longrightarrow> label \<in> all_alerts rule_alerts label 50) \<and>
   (label \<in> set rule_alerts \<longrightarrow> all_alerts rule_alerts label confidence = set rule_alerts)"
  by (auto simp: all_alerts_def)

theorem all_alerts_policy_witness:
  "all_alerts [''Battery Failure''] ''Engine Overheating'' 50 =
     {''Battery Failure'', ''Engine Overheating''} \<and>
   all_alerts [''Engine Overheating''] ''Engine Overheating'' 50 = {''Engine Overheating''}"
  using all_alerts_policy [of "[''Battery Failure'']" "''Engine Overheating''" 50]
    all_alerts_policy [of "[''Engine Overheating'']" "''Engine Overheating''" 50]
  by (simp add: insert_commute)

text \<open>
  Claim C7. For every rule-alert set and every prediction, the confidence that goes with
  the fused alert set is the confidence \<^verbatim>\<open>predict_failure\<close> returned, unchanged,
  whether or not the label was added, and the metric shows that same value whether the
  alert set is empty or not.
\<close>

theorem fuse_keeps_confidence:
  "snd (fuse rule_alerts (label, confidence, proba)) = confidence \<and>
   fst (fuse rule_alerts (label, confidence, proba)) = all_alerts rule_alerts label confidence \<and>
   snd (confidence_metric (fst (fuse rule_alerts (label, confidence, proba)))
          (snd (fuse rule_alerts (label, confidence, proba)))) = confidence"
  by (simp add: fuse_def confidence_metric_def)

text \<open>The same along a whole diagnosis: the rules never raise, and the confidence passes through.\<close>

lemma diagnosis_confidence:
  assumes "predict_failure np A data = Inr (label, confidence, proba)"
  shows "\<exists>rule_alerts. check_custom_rules data = Inr rule_alerts \<and>
           diagnosis np A data = Inr (all_alerts rule_alerts label confidence, confidence)"
  using assms by (simp add: diagnosis_def check_custom_rules_fired bind_exn_def fuse_def)

text \<open>
  Claim C9. The fused alert set contains every rule alert: fusion can add the label of the
  classifier, and never removes or replaces an alert that a rule raised.
\<close>

theorem all_alerts_superset:
  "set rule_alerts \<subseteq> all_alerts rule_alerts label confidence \<and>
   set rule_alerts \<subseteq> fst (fuse rule_alerts (label, confidence, proba))"
  by (auto simp: all_alerts_def fuse_def)

lemma high_mileage_rules:
  "check_custom_rules high_mileage_vitals = Inr [''Maintenance Due / High Mileage Warning'']"
  by (simp add: check_custom_rules_def rule_block_def high_mileage_vitals_def item_gt_def
      item_lt_def getitem_def get_default_def py_or_def float_13_8_def)

lemma unavailable_not_loaded: "\<not> assets_loaded unavailable_assets"
  by (simp add: assets_loaded_def unavailable_assets_def truthy_def)

lemma unavailable_prediction:
  "predict_failure np unavailable_assets input_data = Inr (''Model not loaded'', 0, None)"
  by (simp add: predict_failure_def unavailable_not_loaded)

text \<open>
  Claim C4. For the readings odometer 320000, engine 95, battery 13.8, oil pressure 300,
  both brake pads 8, suspension 80, tyre pressure 32, coolant 90, brake fluid 90 and
  transmission 90, with the model assets unavailable, the diagnosis gives the alert set
  {"Maintenance Due / High Mileage Warning"} and confidence 0.
\<close>

theorem high_mileage_model_unavailable:
  "diagnosis np unavailable_assets high_mileage_vitals =
     Inr ({''Maintenance Due / High Mileage Warning''}, 0)"
  by (simp add: diagnosis_def high_mileage_rules unavailable_prediction bind_exn_def fuse_def
      all_alerts_def)

end
